theory Spec2Isabelle
  imports Main "HOL-Library.Char_ord" "HOL-Library.List_Lexorder"
begin

section \<open>Python primitives used by the bot\<close>

text \<open>
  Python strings are modelled as \<open>string\<close>. \<open>s.startswith(p)\<close> compares the first
  \<open>len(p)\<close> characters of \<open>s\<close> with \<open>p\<close>; \<open>s.startswith((p, q))\<close> accepts either prefix.
\<close>

definition startswith :: "string \<Rightarrow> string \<Rightarrow> bool" where
  "startswith s p = (take (length p) s = p)"

definition startswith_any :: "string \<Rightarrow> string list \<Rightarrow> bool" where
  "startswith_any s ps = list_ex (startswith s) ps"

section \<open>utils/media\_utils.py: URL validation\<close>

text \<open>
  \<open>is_valid_url\<close> first prepends \<open>https://\<close> when the text carries neither scheme and only
  then measures the length. No operation of the body raises on a \<open>str\<close>, so the
  \<open>except\<close> branch is not entered for string inputs. \<open>normalize_url\<close> is the value of the
  local variable \<open>url\<close> after the first \<open>if\<close>.
\<close>

definition normalize_url :: "string \<Rightarrow> string" where
  "normalize_url url =
     (if \<not> startswith_any url [''http://'', ''https://''] then ''https://'' @ url else url)"

definition is_valid_url :: "string \<Rightarrow> bool" where
  "is_valid_url url =
     (let url' = normalize_url url
      in if length url' < 5 then False else True)"

section \<open>config.py\<close>

text \<open>
  The values read from the process environment are the fields of \<open>config\<close>;
  \<open>ACCESS_TIMEOUT\<close> is the class constant of one hour. \<open>BASE_DIR\<close> is the directory of
  \<open>config.py\<close>, from which the storage directories are joined.
\<close>

record config =
  ADMIN_ID :: int
  ACCESS_PASSWORD :: string
  BASE_DIR :: string

definition ACCESS_TIMEOUT :: int where
  "ACCESS_TIMEOUT = 3600"

text \<open>\<open>os.path.join\<close> and \<open>os.path.basename\<close> of \<open>posixpath\<close>, for two components.\<close>

definition os_path_join :: "string \<Rightarrow> string \<Rightarrow> string" where
  "os_path_join a b =
     (if startswith b ''/'' then b
      else if a = [] \<or> last a = CHR ''/'' then a @ b
      else a @ ''/'' @ b)"

definition os_path_basename :: "string \<Rightarrow> string" where
  "os_path_basename p = rev (takeWhile (\<lambda>c. c \<noteq> CHR ''/'') (rev p))"

definition DATA_DIR :: "config \<Rightarrow> string" where
  "DATA_DIR cfg = os_path_join (BASE_DIR cfg) ''DATA''"

definition VIDEO_DIR :: "config \<Rightarrow> string" where
  "VIDEO_DIR cfg = os_path_join (DATA_DIR cfg) ''videos''"

definition THUMBNAIL_DIR :: "config \<Rightarrow> string" where
  "THUMBNAIL_DIR cfg = os_path_join (DATA_DIR cfg) ''thumbnails''"

section \<open>database/database.py\<close>

text \<open>
  The three tables of the schema. \<open>users\<close> is a map from its primary key \<open>id\<close>, which the
  code supplies, to the other two columns; \<open>categories\<close> and \<open>videos\<close> are lists of rows
  in insertion order. The columns keep their names behind a prefix for the table.
  \<open>username\<close> and \<open>thumbnail_path\<close> are the columns the code fills with \<open>None\<close>.
\<close>

record user_row =
  u_username :: "string option"
  u_access_until :: int

record category_row =
  c_id :: int
  c_name :: string

record video_row =
  v_id :: int
  v_title :: string
  v_type :: string
  v_path_or_url :: string
  v_category_id :: int
  v_thumbnail_path :: "string option"

text \<open>
  Besides the tables, the database carries the two \<open>AUTOINCREMENT\<close> counters and two facts
  of the SQLite library it is opened with: whether opening the file raises
  \<open>sqlite3.Error\<close> (unreachable, locked or corrupt file), and the value of
  \<open>PRAGMA foreign_keys\<close> on a fresh connection. SQLite keeps that pragma per connection;
  it is off on a fresh connection unless the library was built to default it on.
\<close>

record database =
  users :: "int \<rightharpoonup> user_row"
  categories :: "category_row list"
  videos :: "video_row list"
  category_seq :: int
  video_seq :: int
  sqlite_raises :: bool
  default_foreign_keys :: bool

datatype sqlite_error = OperationalError | IntegrityError

record connection =
  foreign_keys :: bool

text \<open>
  \<open>get_connection\<close> opens a new connection and sets only its row factory; an error is
  logged and raised again to the caller.
\<close>

definition get_connection :: "database \<Rightarrow> sqlite_error + connection" where
  "get_connection d =
     (if sqlite_raises d then Inl OperationalError
      else Inr \<lparr>foreign_keys = default_foreign_keys d\<rparr>)"

text \<open>
  \<open>init_db\<close> creates the tables when they are missing and then turns foreign keys on, on
  its own connection, which the context manager closes on exit: the returned database is the
  one it was given, and the connection with the pragma set is the second component, dropped
  by every caller.
\<close>

definition init_db :: "database \<Rightarrow> sqlite_error + (database \<times> connection)" where
  "init_db d =
     (case get_connection d of
        Inl e \<Rightarrow> Inl e
      | Inr conn \<Rightarrow> Inr (d, conn\<lparr>foreign_keys := True\<rparr>))"

subsection \<open>User operations\<close>

definition get_user :: "database \<Rightarrow> int \<Rightarrow> user_row option" where
  "get_user d user_id =
     (case get_connection d of
        Inl e \<Rightarrow> None
      | Inr conn \<Rightarrow> users d user_id)"

text \<open>
  \<open>INSERT OR REPLACE\<close> on the primary key: the row of that id, if any, is replaced.
  \<open>now\<close> is \<open>int(time.time())\<close>.
\<close>

definition save_user_access :: "database \<Rightarrow> int \<Rightarrow> int \<Rightarrow> string option \<Rightarrow> int \<Rightarrow> bool \<times> database" where
  "save_user_access d now user_id username expires_in =
     (case get_connection d of
        Inl e \<Rightarrow> (False, d)
      | Inr conn \<Rightarrow>
          (let access_until = now + expires_in
           in (True,
               d\<lparr>users := (users d)
                    (user_id \<mapsto> \<lparr>u_username = username, u_access_until = access_until\<rparr>)\<rparr>)))"

definition check_user_access :: "database \<Rightarrow> int \<Rightarrow> int \<Rightarrow> bool" where
  "check_user_access d now user_id =
     (case get_user d user_id of
        None \<Rightarrow> False
      | Some user \<Rightarrow> u_access_until user > now)"

subsection \<open>Category operations\<close>

text \<open>\<open>ORDER BY name\<close>: rows sorted by name in the lexicographic order of their characters.\<close>

definition get_all_categories :: "database \<Rightarrow> category_row list" where
  "get_all_categories d =
     (case get_connection d of
        Inl e \<Rightarrow> []
      | Inr conn \<Rightarrow> sort_key c_name (categories d))"

text \<open>
  \<open>name\<close> is \<open>UNIQUE\<close>: inserting a name already present raises \<open>IntegrityError\<close>, which
  the function turns into \<open>None\<close>. The new id is the next value of the counter.
\<close>

definition add_category :: "database \<Rightarrow> string \<Rightarrow> int option \<times> database" where
  "add_category d name =
     (case get_connection d of
        Inl e \<Rightarrow> (None, d)
      | Inr conn \<Rightarrow>
          if list_ex (\<lambda>c. c_name c = name) (categories d) then (None, d)
          else (let new_id = category_seq d + 1
                in (Some new_id,
                    d\<lparr>categories := categories d @ [\<lparr>c_id = new_id, c_name = name\<rparr>],
                      category_seq := new_id\<rparr>)))"

text \<open>
  \<open>DELETE FROM categories WHERE id = ?\<close> on a connection. The \<open>ON DELETE CASCADE\<close> of
  \<open>videos.category_id\<close> fires for a deleted category row when the connection enforces
  foreign keys, and not otherwise.
\<close>

definition sql_delete_category :: "connection \<Rightarrow> database \<Rightarrow> int \<Rightarrow> database" where
  "sql_delete_category conn d category_id =
     d\<lparr>categories := filter (\<lambda>c. c_id c \<noteq> category_id) (categories d),
       videos :=
         (if foreign_keys conn \<and> list_ex (\<lambda>c. c_id c = category_id) (categories d)
          then filter (\<lambda>v. v_category_id v \<noteq> category_id) (videos d)
          else videos d)\<rparr>"

definition delete_category :: "database \<Rightarrow> int \<Rightarrow> video_row list \<times> database" where
  "delete_category d category_id =
     (case get_connection d of
        Inl e \<Rightarrow> ([], d)
      | Inr conn \<Rightarrow>
          (let videos_found = filter (\<lambda>v. v_category_id v = category_id) (videos d)
           in (videos_found, sql_delete_category conn d category_id)))"

subsection \<open>Video operations\<close>

text \<open>
  \<open>add_video\<close> receives what the conversation context holds, \<open>None\<close> for a missing key.
  \<open>title\<close>, \<open>type\<close> and \<open>path_or_url\<close> are \<open>NOT NULL\<close>, and on a connection that enforces
  foreign keys the category must exist: a violated constraint raises \<open>IntegrityError\<close>,
  which the function turns into \<open>None\<close>.
\<close>

definition add_video :: "database \<Rightarrow> string option \<Rightarrow> string option \<Rightarrow> string option \<Rightarrow> int \<Rightarrow> string option \<Rightarrow> int option \<times> database" where
  "add_video d title video_type path_or_url category_id thumbnail_path =
     (case get_connection d of
        Inl e \<Rightarrow> (None, d)
      | Inr conn \<Rightarrow>
          (case (title, video_type, path_or_url) of
             (Some t, Some ty, Some p) \<Rightarrow>
               if foreign_keys conn \<and> \<not> list_ex (\<lambda>c. c_id c = category_id) (categories d)
               then (None, d)
               else (let new_id = video_seq d + 1
                     in (Some new_id,
                         d\<lparr>videos := videos d @
                              [\<lparr>v_id = new_id, v_title = t, v_type = ty,
                                v_path_or_url = p, v_category_id = category_id,
                                v_thumbnail_path = thumbnail_path\<rparr>],
                           video_seq := new_id\<rparr>))
           | _ \<Rightarrow> (None, d)))"

definition get_videos_by_category :: "database \<Rightarrow> int \<Rightarrow> video_row list" where
  "get_videos_by_category d category_id =
     (case get_connection d of
        Inl e \<Rightarrow> []
      | Inr conn \<Rightarrow> sort_key v_title (filter (\<lambda>v. v_category_id v = category_id) (videos d)))"

definition get_video :: "database \<Rightarrow> int \<Rightarrow> video_row option" where
  "get_video d video_id =
     (case get_connection d of
        Inl e \<Rightarrow> None
      | Inr conn \<Rightarrow> find (\<lambda>v. v_id v = video_id) (videos d))"

definition delete_video :: "database \<Rightarrow> int \<Rightarrow> video_row option \<times> database" where
  "delete_video d video_id =
     (case get_connection d of
        Inl e \<Rightarrow> (None, d)
      | Inr conn \<Rightarrow>
          (find (\<lambda>v. v_id v = video_id) (videos d),
           d\<lparr>videos := filter (\<lambda>v. v_id v \<noteq> video_id) (videos d)\<rparr>))"

section \<open>utils/media\_utils.py: files and thumbnails\<close>

text \<open>
  The filesystem is the set of existing paths, together with the paths on which
  \<open>os.remove\<close> raises \<open>OSError\<close> (a directory, a file without permission). Each function
  returns the filesystem it leaves and the list of filesystem calls it made.
\<close>

record filesystem =
  fs_paths :: "string set"
  fs_denied :: "string set"

datatype fs_call = Exists string | Remove string

datatype py_exception = OSError | ZeroDivisionError | Cv2Error | DownloadError

definition os_path_exists :: "filesystem \<Rightarrow> string \<Rightarrow> bool" where
  "os_path_exists fs p = (p \<in> fs_paths fs)"

definition os_remove :: "filesystem \<Rightarrow> string \<Rightarrow> py_exception + filesystem" where
  "os_remove fs p =
     (if p \<in> fs_paths fs \<and> p \<notin> fs_denied fs
      then Inr (fs\<lparr>fs_paths := fs_paths fs - {p}\<rparr>)
      else Inl OSError)"

text \<open>
  \<open>delete_video_files\<close>: nothing is touched unless the type column is \<open>file\<close>; then the
  video file and, when the column holds a non-empty path, the thumbnail are removed if they
  exist. An exception of \<open>os.remove\<close> ends the function with \<open>False\<close>.
\<close>

definition delete_video_files :: "filesystem \<Rightarrow> video_row \<Rightarrow> bool \<times> filesystem \<times> fs_call list" where
  "delete_video_files fs video =
     (if v_type video \<noteq> ''file'' then (True, fs, [])
      else
        (let video_path = v_path_or_url video;
             step1 =
               (if os_path_exists fs video_path
                then (os_remove fs video_path, [Exists video_path, Remove video_path])
                else (Inr fs, [Exists video_path]))
         in case fst step1 of
              Inl e \<Rightarrow> (False, fs, snd step1)
            | Inr fs1 \<Rightarrow>
                (case v_thumbnail_path video of
                   None \<Rightarrow> (True, fs1, snd step1)
                 | Some thumbnail_path \<Rightarrow>
                     if thumbnail_path = [] then (True, fs1, snd step1)
                     else if os_path_exists fs1 thumbnail_path
                     then (case os_remove fs1 thumbnail_path of
                             Inl e \<Rightarrow>
                               (False, fs1,
                                snd step1 @ [Exists thumbnail_path, Remove thumbnail_path])
                           | Inr fs2 \<Rightarrow>
                               (True, fs2,
                                snd step1 @ [Exists thumbnail_path, Remove thumbnail_path]))
                     else (True, fs1, snd step1 @ [Exists thumbnail_path]))))"

subsection \<open>Thumbnail generation\<close>

text \<open>
  OpenCV is outside the repository. A \<open>video_capture\<close> is what the decoder reports of a
  file: whether it opened, the frame count (after \<open>int\<close>), and for each frame position the
  decoded image or a failed read. The outcomes of \<open>cv2.resize\<close> and \<open>cv2.imwrite\<close> are
  functions of the environment \<open>cv2\<close>. An image is known by its shape and by the frame
  position it was decoded from.
\<close>

record image =
  img_height :: nat
  img_width :: nat
  img_frame :: int

record video_capture =
  vc_opened :: bool
  vc_frame_count :: int
  vc_read :: "int \<Rightarrow> image option"

record cv2 =
  cv_VideoCapture :: "string \<Rightarrow> video_capture"
  cv_resize :: "image \<Rightarrow> nat \<times> nat \<Rightarrow> py_exception + image"
  cv_imwrite :: "string \<Rightarrow> image \<Rightarrow> py_exception + bool"

datatype cv_call = SetPosFrames int | Read | Resize image nat nat | Imwrite string image

text \<open>
  \<open>int(max_dim * a / b)\<close> on non-negative integers: Python divides as floats and truncates.
  For \<open>max_dim * a\<close> below \<open>2^53\<close>, which covers every frame size, the correctly rounded
  quotient truncates to the integer quotient, written here; a zero divisor raises.
\<close>

definition int_truediv :: "nat \<Rightarrow> nat \<Rightarrow> py_exception + nat" where
  "int_truediv a b = (if b = 0 then Inl ZeroDivisionError else Inr (a div b))"

text \<open>The pair \<open>(new_height, new_width)\<close> of the thumbnail, from the frame's shape.\<close>

definition new_size :: "nat \<Rightarrow> nat \<Rightarrow> py_exception + (nat \<times> nat)" where
  "new_size height width =
     (let max_dim = 320
      in if height > width
         then (case int_truediv (max_dim * width) height of
                 Inl e \<Rightarrow> Inl e
               | Inr new_width \<Rightarrow> Inr (max_dim, new_width))
         else (case int_truediv (max_dim * height) width of
                 Inl e \<Rightarrow> Inl e
               | Inr new_height \<Rightarrow> Inr (new_height, max_dim)))"

text \<open>
  The inner function \<open>_generate\<close>. Every exception is caught and gives \<open>None\<close>. A
  written thumbnail exists in the filesystem afterwards.
\<close>

definition generate :: "cv2 \<Rightarrow> filesystem \<Rightarrow> string \<Rightarrow> string \<Rightarrow> string option \<times> filesystem \<times> cv_call list" where
  "generate cv fs video_path thumbnail_path =
     (let vidcap = cv_VideoCapture cv video_path
      in if \<not> vc_opened vidcap then (None, fs, [])
         else
           (let total_frames = vc_frame_count vidcap
            in if total_frames = 0 then (None, fs, [])
               else
                 (let middle_frame = total_frames div 2
                  in case vc_read vidcap middle_frame of
                       None \<Rightarrow> (None, fs, [SetPosFrames middle_frame, Read])
                     | Some img \<Rightarrow>
                         (case new_size (img_height img) (img_width img) of
                            Inl e \<Rightarrow> (None, fs, [SetPosFrames middle_frame, Read])
                          | Inr (new_height, new_width) \<Rightarrow>
                              (case cv_resize cv img (new_width, new_height) of
                                 Inl e \<Rightarrow>
                                   (None, fs,
                                    [SetPosFrames middle_frame, Read,
                                     Resize img new_width new_height])
                               | Inr resized_image \<Rightarrow>
                                   (case cv_imwrite cv thumbnail_path resized_image of
                                      Inl e \<Rightarrow>
                                        (None, fs,
                                         [SetPosFrames middle_frame, Read,
                                          Resize img new_width new_height,
                                          Imwrite thumbnail_path resized_image])
                                    | Inr result \<Rightarrow>
                                        if \<not> result
                                        then (None, fs,
                                              [SetPosFrames middle_frame, Read,
                                               Resize img new_width new_height,
                                               Imwrite thumbnail_path resized_image])
                                        else (Some thumbnail_path,
                                              fs\<lparr>fs_paths := insert thumbnail_path (fs_paths fs)\<rparr>,
                                              [SetPosFrames middle_frame, Read,
                                               Resize img new_width new_height,
                                               Imwrite thumbnail_path resized_image])))))))"

definition thumbnail_path_of :: "config \<Rightarrow> string \<Rightarrow> string" where
  "thumbnail_path_of cfg video_path =
     os_path_join (THUMBNAIL_DIR cfg) (os_path_basename video_path @ ''.jpg'')"

definition generate_thumbnail :: "config \<Rightarrow> cv2 \<Rightarrow> filesystem \<Rightarrow> string \<Rightarrow> string option \<times> filesystem \<times> cv_call list" where
  "generate_thumbnail cfg cv fs video_path =
     (if \<not> os_path_exists fs video_path then (None, fs, [])
      else generate cv fs video_path (thumbnail_path_of cfg video_path))"

subsection \<open>Saving an uploaded video\<close>

text \<open>
  The media of a message: a document with its MIME type (\<open>None\<close> when the document has no
  such attribute), a web page preview with its URL, or media of another kind. The Telegram
  client is outside the repository: \<open>download_media\<close> raises, or returns the path it wrote
  (or \<open>None\<close>) and the filesystem it leaves. \<open>uuid_hex\<close> is the value of \<open>uuid.uuid4().hex\<close>.
\<close>

datatype media =
    MessageMediaDocument "string option"
  | MessageMediaWebPage "string option"
  | MessageMediaOther

record telegram_client =
  download_media :: "filesystem \<Rightarrow> string \<Rightarrow> py_exception + (string option \<times> filesystem)"
  uuid_hex :: string

definition save_video_file :: "config \<Rightarrow> telegram_client \<Rightarrow> cv2 \<Rightarrow> filesystem \<Rightarrow> media option \<Rightarrow> (string option \<times> string option) \<times> filesystem" where
  "save_video_file cfg client cv fs message_media =
     (let video_filename = uuid_hex client @ ''.mp4'';
          video_path = os_path_join (VIDEO_DIR cfg) video_filename
      in case message_media of
           Some (MessageMediaDocument (Some mime_type)) \<Rightarrow>
             if startswith mime_type ''video/''
             then (case download_media client fs video_path of
                     Inl e \<Rightarrow> ((None, None), fs)
                   | Inr (None, fs1) \<Rightarrow> ((None, None), fs1)
                   | Inr (Some downloaded_path, fs1) \<Rightarrow>
                       if downloaded_path = [] \<or> \<not> os_path_exists fs1 downloaded_path
                       then ((None, None), fs1)
                       else (case generate_thumbnail cfg cv fs1 downloaded_path of
                               (thumbnail_path, fs2, calls) \<Rightarrow>
                                 ((Some downloaded_path, thumbnail_path), fs2)))
             else ((None, None), fs)
         | _ \<Rightarrow> ((None, None), fs))"

section \<open>The bot: handler state, events and replies\<close>

text \<open>
  Each handler module keeps its own dictionary \<open>user_states\<close>, keyed by user id. The bot
  is the database, the filesystem with the calls made on it so far, and the three
  dictionaries, with the list of replies sent so far (newest last), each with the user it
  went to. \<open>now\<close> is \<open>int(time.time())\<close> at
  the moment the handler runs.
\<close>

datatype reply =
    EnterPassword
  | PasswordCorrect
  | IncorrectPassword
  | MainMenu
  | AccessExpired
  | ManageCategoriesMenu
  | AddCategoryPrompt
  | NoCategoriesToDelete
  | DeleteCategoryMenu "category_row list"
  | ConfirmCategoryDeletion string int
  | CategoryDeleted
  | InvalidName
  | CategoryAdded string
  | AddCategoryFailed
  | AddVideoPrompt
  | InvalidTitle
  | VideoUploadPrompt string
  | InvalidURL
  | NoCategoriesAddFirst
  | SelectCategoryMenu "category_row list"
  | InvalidLink
  | Downloading
  | ErrorSavingFile
  | InvalidFile
  | LinkProcessingIssue
  | InvalidInput
  | SessionExpired
  | VideoAdded "string option"
  | AddVideoFailed
  | VideoNotFound
  | ConfirmVideoDeletion string int
  | VideoDeleted string
  | DeleteVideoFailed
  | ManageVideosMenu

record video_context =
  ctx_title :: "string option"
  ctx_type :: "string option"
  ctx_path_or_url :: "string option"
  ctx_thumbnail_path :: "string option"
  ctx_category_id :: "int option"
  ctx_video_id :: "int option"

record bot =
  db :: database
  disk :: filesystem
  fs_calls :: "fs_call list"
  auth_user_states :: "int \<rightharpoonup> nat"
  category_user_states :: "int \<rightharpoonup> (nat \<times> int option)"
  video_user_states :: "int \<rightharpoonup> (nat \<times> video_context)"
  sent :: "(int \<times> reply) list"

record event =
  sender_id :: int
  sender_username :: "string option"
  event_text :: string
  event_media :: "media option"

definition respond :: "event \<Rightarrow> reply \<Rightarrow> bot \<Rightarrow> bot" where
  "respond ev r b = b\<lparr>sent := sent b @ [(sender_id ev, r)]\<rparr>"

section \<open>handlers/auth\_handler.py\<close>

definition STATE_WAITING_PASSWORD :: nat where
  "STATE_WAITING_PASSWORD = 1"

definition show_main_menu :: "event \<Rightarrow> bot \<Rightarrow> bot" where
  "show_main_menu ev b = respond ev MainMenu b"

text \<open>\<open>check_access\<close>: the administrator is let through before the database is read.\<close>

definition check_access :: "config \<Rightarrow> int \<Rightarrow> bot \<Rightarrow> event \<Rightarrow> bool" where
  "check_access cfg now b ev =
     (let user_id = sender_id ev
      in if user_id = ADMIN_ID cfg then True
         else check_user_access (db b) now user_id)"

text \<open>The handler of \<open>/start\<close>. The result of \<open>save_user_access\<close> is not looked at.\<close>

definition start_handler :: "config \<Rightarrow> int \<Rightarrow> event \<Rightarrow> bot \<Rightarrow> bot" where
  "start_handler cfg now ev b =
     (let user_id = sender_id ev; username = sender_username ev
      in if user_id = ADMIN_ID cfg
         then show_main_menu ev
                (b\<lparr>db := snd (save_user_access (db b) now user_id username
                                 (100 * 365 * 24 * 3600))\<rparr>)
         else if check_user_access (db b) now user_id then show_main_menu ev b
         else (respond ev EnterPassword b)
                \<lparr>auth_user_states := (auth_user_states b)(user_id \<mapsto> STATE_WAITING_PASSWORD)\<rparr>)"

text \<open>
  The handler of every new message, for the password. A text that starts with \<open>/\<close> and a
  message of the administrator are dropped first. The access is granted with the default
  \<open>expires_in\<close>, which is \<open>ACCESS_TIMEOUT\<close>.
\<close>

definition message_handler :: "config \<Rightarrow> int \<Rightarrow> event \<Rightarrow> bot \<Rightarrow> bot" where
  "message_handler cfg now ev b =
     (let user_id = sender_id ev
      in if startswith (event_text ev) ''/'' \<or> user_id = ADMIN_ID cfg then b
         else if auth_user_states b user_id = Some STATE_WAITING_PASSWORD
         then (if event_text ev = ACCESS_PASSWORD cfg
               then (let username = sender_username ev;
                         b1 = b\<lparr>db := snd (save_user_access (db b) now user_id username
                                               ACCESS_TIMEOUT)\<rparr>;
                         b2 = b1\<lparr>auth_user_states := (auth_user_states b1)(user_id := None)\<rparr>
                     in show_main_menu ev (respond ev PasswordCorrect b2))
               else respond ev IncorrectPassword b)
         else b)"

section \<open>handlers/category\_handler.py\<close>

definition STATE_WAITING_CATEGORY_NAME :: nat where
  "STATE_WAITING_CATEGORY_NAME = 1"

definition STATE_CONFIRM_DELETE :: nat where
  "STATE_CONFIRM_DELETE = 2"

text \<open>
  \<open>str.strip()\<close>: whitespace is dropped at both ends (the ASCII whitespace characters).
\<close>

definition isspace :: "char \<Rightarrow> bool" where
  "isspace c = (c \<in> set [CHR '' '', CHR 0x09, CHR 0x0A, CHR 0x0B, CHR 0x0C, CHR 0x0D,
                          CHR 0x1C, CHR 0x1D, CHR 0x1E, CHR 0x1F])"

definition strip :: "string \<Rightarrow> string" where
  "strip s = rev (dropWhile isspace (rev (dropWhile isspace s)))"

text \<open>
  A button click carries the token of the button; the handlers below are registered for the
  tokens of the category menus, the number being the id that the pattern captures.
\<close>

definition on_manage_categories :: "config \<Rightarrow> int \<Rightarrow> event \<Rightarrow> bot \<Rightarrow> bot" where
  "on_manage_categories cfg now ev b =
     (if \<not> check_access cfg now b ev then respond ev AccessExpired b
      else respond ev ManageCategoriesMenu b)"

definition on_category_add :: "config \<Rightarrow> int \<Rightarrow> event \<Rightarrow> bot \<Rightarrow> bot" where
  "on_category_add cfg now ev b =
     (if \<not> check_access cfg now b ev then respond ev AccessExpired b
      else (let user_id = sender_id ev
            in respond ev AddCategoryPrompt
                 (b\<lparr>category_user_states :=
                      (category_user_states b)(user_id \<mapsto> (STATE_WAITING_CATEGORY_NAME, None))\<rparr>)))"

definition on_category_delete :: "config \<Rightarrow> int \<Rightarrow> event \<Rightarrow> bot \<Rightarrow> bot" where
  "on_category_delete cfg now ev b =
     (if \<not> check_access cfg now b ev then respond ev AccessExpired b
      else (let cats = get_all_categories (db b)
            in if cats = [] then respond ev NoCategoriesToDelete b
               else respond ev (DeleteCategoryMenu cats) b))"

definition on_delete_category_selected :: "config \<Rightarrow> int \<Rightarrow> int \<Rightarrow> event \<Rightarrow> bot \<Rightarrow> bot" where
  "on_delete_category_selected cfg now category_id ev b =
     (if \<not> check_access cfg now b ev then respond ev AccessExpired b
      else (let cats = get_all_categories (db b);
                category_name =
                  (case find (\<lambda>cat. c_id cat = category_id) cats of
                     Some cat \<Rightarrow> c_name cat
                   | None \<Rightarrow> ''Unknown'');
                user_id = sender_id ev
            in respond ev (ConfirmCategoryDeletion category_name category_id)
                 (b\<lparr>category_user_states :=
                      (category_user_states b)
                        (user_id \<mapsto> (STATE_CONFIRM_DELETE, Some category_id))\<rparr>)))"

text \<open>
  The loop \<open>for video in videos: delete_video_files(video)\<close>: the filesystem is passed from
  one video to the next, and the result of each call is not looked at.
\<close>

fun delete_all_video_files :: "filesystem \<Rightarrow> video_row list \<Rightarrow> filesystem \<times> fs_call list" where
  "delete_all_video_files f [] = (f, [])"
| "delete_all_video_files f (video # rest) =
     (case delete_video_files f video of
        (ok, f1, calls) \<Rightarrow>
          (case delete_all_video_files f1 rest of
             (f2, calls2) \<Rightarrow> (f2, calls @ calls2)))"

definition on_confirm_delete :: "config \<Rightarrow> int \<Rightarrow> int \<Rightarrow> event \<Rightarrow> bot \<Rightarrow> bot" where
  "on_confirm_delete cfg now category_id ev b =
     (if \<not> check_access cfg now b ev then respond ev AccessExpired b
      else (case delete_category (db b) category_id of
              (videos_found, d1) \<Rightarrow>
                (case delete_all_video_files (disk b) videos_found of
                   (f1, calls) \<Rightarrow>
                     respond ev CategoryDeleted
                       (b\<lparr>db := d1, disk := f1, fs_calls := fs_calls b @ calls\<rparr>))))"

definition on_back_to_categories :: "config \<Rightarrow> int \<Rightarrow> event \<Rightarrow> bot \<Rightarrow> bot" where
  "on_back_to_categories cfg now ev b =
     (if \<not> check_access cfg now b ev then respond ev AccessExpired b
      else (let user_id = sender_id ev
            in respond ev ManageCategoriesMenu
                 (b\<lparr>category_user_states := (category_user_states b)(user_id := None)\<rparr>)))"

definition on_back_to_main :: "config \<Rightarrow> int \<Rightarrow> event \<Rightarrow> bot \<Rightarrow> bot" where
  "on_back_to_main cfg now ev b =
     (if \<not> check_access cfg now b ev then respond ev AccessExpired b
      else (let user_id = sender_id ev
            in show_main_menu ev
                 (b\<lparr>category_user_states := (category_user_states b)(user_id := None)\<rparr>)))"

text \<open>
  The handler of every new message, for the category name. It reads the conversation state
  of the sender and nothing else: \<open>check_access\<close> is not called here. An id of zero counts
  as failure, as \<open>if category_id\<close> does.
\<close>

definition category_on_message :: "event \<Rightarrow> bot \<Rightarrow> bot" where
  "category_on_message ev b =
     (let user_id = sender_id ev
      in case category_user_states b user_id of
           None \<Rightarrow> b
         | Some (state, context) \<Rightarrow>
             if state = STATE_WAITING_CATEGORY_NAME
             then (let category_name = strip (event_text ev)
                   in if category_name = [] then respond ev InvalidName b
                      else (case add_category (db b) category_name of
                              (category_id, d1) \<Rightarrow>
                                if category_id \<noteq> None \<and> category_id \<noteq> Some 0
                                then respond ev (CategoryAdded category_name)
                                       (b\<lparr>db := d1,
                                          category_user_states :=
                                            (category_user_states b)(user_id := None)\<rparr>)
                                else respond ev AddCategoryFailed (b\<lparr>db := d1\<rparr>)))
             else b)"

section \<open>handlers/video\_handler.py\<close>

definition STATE_WAITING_TITLE :: nat where
  "STATE_WAITING_TITLE = 1"

definition STATE_WAITING_VIDEO :: nat where
  "STATE_WAITING_VIDEO = 2"

definition STATE_WAITING_CATEGORY :: nat where
  "STATE_WAITING_CATEGORY = 3"

definition STATE_CONFIRM_DELETE_VIDEO :: nat where
  "STATE_CONFIRM_DELETE_VIDEO = 4"

definition empty_context :: video_context where
  "empty_context =
     \<lparr>ctx_title = None, ctx_type = None, ctx_path_or_url = None, ctx_thumbnail_path = None,
      ctx_category_id = None, ctx_video_id = None\<rparr>"

definition on_video_add :: "config \<Rightarrow> int \<Rightarrow> event \<Rightarrow> bot \<Rightarrow> bot" where
  "on_video_add cfg now ev b =
     (if \<not> check_access cfg now b ev then respond ev AccessExpired b
      else (let user_id = sender_id ev
            in respond ev AddVideoPrompt
                 (b\<lparr>video_user_states :=
                      (video_user_states b)(user_id \<mapsto> (STATE_WAITING_TITLE, empty_context))\<rparr>)))"

definition on_delete_video_selected :: "config \<Rightarrow> int \<Rightarrow> int \<Rightarrow> event \<Rightarrow> bot \<Rightarrow> bot" where
  "on_delete_video_selected cfg now video_id ev b =
     (if \<not> check_access cfg now b ev then respond ev AccessExpired b
      else (case get_video (db b) video_id of
              None \<Rightarrow> respond ev VideoNotFound b
            | Some video \<Rightarrow>
                (let user_id = sender_id ev
                 in respond ev (ConfirmVideoDeletion (v_title video) video_id)
                      (b\<lparr>video_user_states :=
                           (video_user_states b)
                             (user_id \<mapsto> (STATE_CONFIRM_DELETE_VIDEO,
                                           empty_context\<lparr>ctx_video_id := Some video_id\<rparr>))\<rparr>))))"

definition on_confirm_delete_video :: "config \<Rightarrow> int \<Rightarrow> int \<Rightarrow> event \<Rightarrow> bot \<Rightarrow> bot" where
  "on_confirm_delete_video cfg now video_id ev b =
     (if \<not> check_access cfg now b ev then respond ev AccessExpired b
      else (case delete_video (db b) video_id of
              (None, d1) \<Rightarrow> respond ev DeleteVideoFailed (b\<lparr>db := d1\<rparr>)
            | (Some video, d1) \<Rightarrow>
                (case delete_video_files (disk b) video of
                   (ok, f1, calls) \<Rightarrow>
                     respond ev (VideoDeleted (v_title video))
                       (b\<lparr>db := d1, disk := f1, fs_calls := fs_calls b @ calls\<rparr>))))"

definition on_back_to_videos :: "config \<Rightarrow> int \<Rightarrow> event \<Rightarrow> bot \<Rightarrow> bot" where
  "on_back_to_videos cfg now ev b =
     (if \<not> check_access cfg now b ev then respond ev AccessExpired b
      else (let user_id = sender_id ev
            in respond ev ManageVideosMenu
                 (b\<lparr>video_user_states := (video_user_states b)(user_id := None)\<rparr>)))"

definition on_category_selected :: "config \<Rightarrow> int \<Rightarrow> int \<Rightarrow> event \<Rightarrow> bot \<Rightarrow> bot" where
  "on_category_selected cfg now category_id ev b =
     (if \<not> check_access cfg now b ev then respond ev AccessExpired b
      else (let user_id = sender_id ev
            in case video_user_states b user_id of
                 None \<Rightarrow> respond ev SessionExpired b
               | Some (state, context0) \<Rightarrow>
                   (let context = context0\<lparr>ctx_category_id := Some category_id\<rparr>;
                        b1 = b\<lparr>video_user_states :=
                                 (video_user_states b)(user_id \<mapsto> (state, context))\<rparr>
                    in case add_video (db b1) (ctx_title context) (ctx_type context)
                              (ctx_path_or_url context) category_id (ctx_thumbnail_path context) of
                         (video_id, d1) \<Rightarrow>
                           if video_id \<noteq> None \<and> video_id \<noteq> Some 0
                           then respond ev (VideoAdded (ctx_title context))
                                  (b1\<lparr>db := d1,
                                      video_user_states :=
                                        (video_user_states b1)(user_id := None)\<rparr>)
                           else respond ev AddVideoFailed (b1\<lparr>db := d1\<rparr>))))"

definition show_category_selection :: "event \<Rightarrow> int \<Rightarrow> bot \<Rightarrow> bot" where
  "show_category_selection ev user_id b =
     (let cats = get_all_categories (db b)
      in if cats = []
         then (respond ev NoCategoriesAddFirst b)
                \<lparr>video_user_states := (video_user_states b)(user_id := None)\<rparr>
         else respond ev (SelectCategoryMenu cats) b)"

text \<open>
  Storing a link in the context and asking for the category: the three places of
  \<open>on_message\<close> that do so run the same statements.
\<close>

definition save_link :: "event \<Rightarrow> int \<Rightarrow> video_context \<Rightarrow> string \<Rightarrow> bot \<Rightarrow> bot" where
  "save_link ev user_id context url b =
     show_category_selection ev user_id
       (b\<lparr>video_user_states :=
            (video_user_states b)
              (user_id \<mapsto> (STATE_WAITING_CATEGORY,
                            context\<lparr>ctx_type := Some ''link'', ctx_path_or_url := Some url\<rparr>))\<rparr>)"

text \<open>
  The handler of every new message, for the title and the video. As in the category
  module, only the conversation state of the sender is read: \<open>check_access\<close> is not called.
\<close>

definition video_on_message :: "config \<Rightarrow> telegram_client \<Rightarrow> cv2 \<Rightarrow> event \<Rightarrow> bot \<Rightarrow> bot" where
  "video_on_message cfg client cv ev b =
     (let user_id = sender_id ev
      in case video_user_states b user_id of
           None \<Rightarrow> b
         | Some (state, context) \<Rightarrow>
             if state = STATE_WAITING_TITLE
             then (let title = strip (event_text ev)
                   in if title = [] then respond ev InvalidTitle b
                      else respond ev (VideoUploadPrompt title)
                             (b\<lparr>video_user_states :=
                                  (video_user_states b)
                                    (user_id \<mapsto> (STATE_WAITING_VIDEO,
                                                  context\<lparr>ctx_title := Some title\<rparr>))\<rparr>))
             else if state = STATE_WAITING_VIDEO
             then (case event_media ev of
                     None \<Rightarrow>
                       if event_text ev \<noteq> []
                       then (let url = strip (event_text ev)
                             in if \<not> is_valid_url url then respond ev InvalidURL b
                                else save_link ev user_id context url b)
                       else respond ev InvalidInput b
                   | Some (MessageMediaWebPage webpage_url) \<Rightarrow>
                       if event_text ev \<noteq> [] \<and> is_valid_url (strip (event_text ev))
                       then save_link ev user_id context (strip (event_text ev)) b
                       else (case webpage_url of
                               None \<Rightarrow> respond ev InvalidLink b
                             | Some url \<Rightarrow>
                                 if url \<noteq> [] then save_link ev user_id context url b
                                 else respond ev InvalidLink b)
                   | Some (MessageMediaDocument mime_type) \<Rightarrow>
                       if (case mime_type of None \<Rightarrow> False | Some m \<Rightarrow> startswith m ''video/'')
                       then (let b1 = respond ev Downloading b
                             in case save_video_file cfg client cv (disk b1) (event_media ev) of
                                  ((video_path, thumbnail_path), f1) \<Rightarrow>
                                    if video_path = None \<or> video_path = Some []
                                    then respond ev ErrorSavingFile (b1\<lparr>disk := f1\<rparr>)
                                    else show_category_selection ev user_id
                                           (b1\<lparr>disk := f1,
                                               video_user_states :=
                                                 (video_user_states b1)
                                                   (user_id \<mapsto>
                                                      (STATE_WAITING_CATEGORY,
                                                       context\<lparr>ctx_type := Some ''file'',
                                                         ctx_path_or_url := video_path,
                                                         ctx_thumbnail_path := thumbnail_path\<rparr>))\<rparr>))
                       else respond ev InvalidFile b
                   | Some MessageMediaOther \<Rightarrow> respond ev LinkProcessingIssue b)
             else b)"

section \<open>Dispatch of a new message\<close>

text \<open>
  Every new message is passed to the handlers registered for it, in the order of
  registration: \<open>start_handler\<close> when the text begins with \<open>/start\<close>, then the password
  handler, then the message handlers of the category and the video module.
\<close>

definition on_new_message :: "config \<Rightarrow> telegram_client \<Rightarrow> cv2 \<Rightarrow> int \<Rightarrow> event \<Rightarrow> bot \<Rightarrow> bot" where
  "on_new_message cfg client cv now ev b =
     (let b1 = (if startswith (event_text ev) ''/start'' then start_handler cfg now ev b else b);
          b2 = message_handler cfg now ev b1;
          b3 = category_on_message ev b2
      in video_on_message cfg client cv ev b3)"

section \<open>Concrete scenarios\<close>

text \<open>
  A configuration, a fresh bot and a small archive, on which the theorems below are
  evaluated. The administrator is user 1; user 42 is an ordinary user.
\<close>

definition demo_config :: config where
  "demo_config = \<lparr>ADMIN_ID = 1, ACCESS_PASSWORD = ''secret'', BASE_DIR = ''/srv/bot''\<rparr>"

definition slash_config :: config where
  "slash_config = \<lparr>ADMIN_ID = 1, ACCESS_PASSWORD = ''/secret'', BASE_DIR = ''/srv/bot''\<rparr>"

definition empty_database :: database where
  "empty_database =
     \<lparr>users = Map.empty, categories = [], videos = [], category_seq = 0, video_seq = 0,
      sqlite_raises = False, default_foreign_keys = False\<rparr>"

definition empty_filesystem :: filesystem where
  "empty_filesystem = \<lparr>fs_paths = {}, fs_denied = {}\<rparr>"

definition new_bot :: bot where
  "new_bot =
     \<lparr>db = empty_database, disk = empty_filesystem, fs_calls = [],
      auth_user_states = Map.empty, category_user_states = Map.empty,
      video_user_states = Map.empty, sent = []\<rparr>"

definition message_from :: "int \<Rightarrow> string \<Rightarrow> event" where
  "message_from user_id t =
     \<lparr>sender_id = user_id, sender_username = Some ''bob'', event_text = t, event_media = None\<rparr>"

text \<open>A decoder that opens every file as ten frames of 1920 by 1080, and one that finds none.\<close>

definition demo_cv :: cv2 where
  "demo_cv =
     \<lparr>cv_VideoCapture = (\<lambda>p.
        \<lparr>vc_opened = True, vc_frame_count = 10,
         vc_read = (\<lambda>n. if 0 \<le> n \<and> n < 10
                          then Some \<lparr>img_height = 1080, img_width = 1920, img_frame = n\<rparr>
                          else None)\<rparr>),
      cv_resize = (\<lambda>img (w, h). Inr \<lparr>img_height = h, img_width = w, img_frame = img_frame img\<rparr>),
      cv_imwrite = (\<lambda>p img. Inr True)\<rparr>"

definition no_frames_cv :: cv2 where
  "no_frames_cv =
     \<lparr>cv_VideoCapture = (\<lambda>p. \<lparr>vc_opened = True, vc_frame_count = 0, vc_read = (\<lambda>n. None)\<rparr>),
      cv_resize = (\<lambda>img (w, h). Inr \<lparr>img_height = h, img_width = w, img_frame = img_frame img\<rparr>),
      cv_imwrite = (\<lambda>p img. Inr True)\<rparr>"

definition demo_client :: telegram_client where
  "demo_client =
     \<lparr>download_media = (\<lambda>f p. Inr (Some p, f\<lparr>fs_paths := insert p (fs_paths f)\<rparr>)),
      uuid_hex = ''0123abcd''\<rparr>"

text \<open>
  An archive of one category with a stored file and a link in it, opened with a SQLite
  library of the usual build.
\<close>

definition clip_video :: video_row where
  "clip_video =
     \<lparr>v_id = 1, v_title = ''Clip'', v_type = ''file'', v_path_or_url = ''/data/videos/a.mp4'',
      v_category_id = 1, v_thumbnail_path = Some ''/data/thumbnails/a.mp4.jpg''\<rparr>"

definition talk_video :: video_row where
  "talk_video =
     \<lparr>v_id = 2, v_title = ''Talk'', v_type = ''link'', v_path_or_url = ''https://example.com/v'',
      v_category_id = 1, v_thumbnail_path = None\<rparr>"

definition archive_bot :: bot where
  "archive_bot =
     new_bot
       \<lparr>db := empty_database
          \<lparr>categories := [\<lparr>c_id = 1, c_name = ''Demo''\<rparr>],
           videos := [clip_video, talk_video], category_seq := 1, video_seq := 2\<rparr>,
        disk := \<lparr>fs_paths = {''/data/videos/a.mp4'', ''/data/thumbnails/a.mp4.jpg''},
                 fs_denied = {}\<rparr>\<rparr>"

text \<open>
  A bot that knows user 42 with access until the instant 2000, and one in which user 42 has
  been asked for the password.
\<close>

definition member_bot :: bot where
  "member_bot =
     new_bot\<lparr>db := empty_database
       \<lparr>users := [42 \<mapsto> \<lparr>u_username = Some ''bob'', u_access_until = 2000\<rparr>]\<rparr>\<rparr>"

definition prompted_bot :: bot where
  "prompted_bot = new_bot\<lparr>auth_user_states := [42 \<mapsto> STATE_WAITING_PASSWORD]\<rparr>"

section \<open>Properties of URL validation\<close>

lemma startswith_length: "startswith s p \<Longrightarrow> length p \<le> length s"
  unfolding startswith_def by (metis length_take min.cobounded1)

lemma normalize_url_length: "7 \<le> length (normalize_url url)"
proof (cases "startswith_any url [''http://'', ''https://'']")
  case True
  then have "startswith url ''http://'' \<or> startswith url ''https://''"
    by (simp add: startswith_any_def)
  then have "7 \<le> length url"
    using startswith_length [of url "''http://''"] startswith_length [of url "''https://''"]
    by auto
  with True show ?thesis by (simp add: normalize_url_def)
next
  case False
  then show ?thesis by (simp add: normalize_url_def)
qed

text \<open>
  Claim C2. The validator should accept \<open>test\<close> and \<open>https://x.com\<close> and reject \<open>a.b\<close> as
  too short, as \<open>tests/test_url_validation.py\<close> expects. On the code all three are
  accepted: \<open>a.b\<close> is measured only after the prefix has been added, as the eleven
  characters \<open>https://a.b\<close>.
\<close>

theorem is_valid_url_examples:
  "is_valid_url ''test'' = True \<and> is_valid_url ''a.b'' = True
   \<and> is_valid_url ''https://x.com'' = True
   \<and> normalize_url ''a.b'' = ''https://a.b'' \<and> length (normalize_url ''a.b'') = 11"
  by (simp add: is_valid_url_def normalize_url_def startswith_any_def startswith_def)

text \<open>
  Claim C9. Every string is accepted: the normalised text has at least seven characters, so
  the branch rejecting fewer than five is never taken.
\<close>

theorem is_valid_url_always_true:
  "is_valid_url url = True \<and> 7 \<le> length (normalize_url url)
   \<and> (startswith_any url [''http://'', ''https://''] \<or> 8 \<le> length (normalize_url url))"
proof -
  have "7 \<le> length (normalize_url url)" by (rule normalize_url_length)
  moreover from this have "is_valid_url url = True" by (simp add: is_valid_url_def Let_def)
  moreover have "startswith_any url [''http://'', ''https://''] \<or> 8 \<le> length (normalize_url url)"
    by (simp add: normalize_url_def)
  ultimately show ?thesis by blast
qed

section \<open>Properties of access control\<close>

text \<open>
  Claim C6. The administrator is authorized in every state of the bot, whatever the users
  table holds for that id and even when the database cannot be opened.
\<close>

theorem admin_always_authorized:
  "check_access cfg now b
     \<lparr>sender_id = ADMIN_ID cfg, sender_username = name, event_text = t, event_media = m\<rparr> = True"
  by (simp add: check_access_def)

text \<open>
  Claim C4. For a user other than the administrator, and a database that can be opened:
  the user is authorized exactly when the users table has a row for the id whose
  \<open>access_until\<close> is strictly greater than the present instant; \<open>save_user_access\<close>
  stores \<open>access_until = now + d\<close>; right after a grant with \<open>d > 0\<close> the user is
  authorized; and after the grant the user is authorized at an instant exactly when that
  instant is before \<open>now + d\<close>, so not once it has reached \<open>access_until\<close>.
\<close>

theorem access_iff_unexpired_record:
  assumes "sender_id ev \<noteq> ADMIN_ID cfg" and "\<not> sqlite_raises (db b)"
  shows "(check_access cfg now b ev \<longleftrightarrow>
            (\<exists>u. users (db b) (sender_id ev) = Some u \<and> now < u_access_until u))
       \<and> save_user_access (db b) now (sender_id ev) name d =
            (True, (db b)\<lparr>users := (users (db b))(sender_id ev \<mapsto>
                      \<lparr>u_username = name, u_access_until = now + d\<rparr>)\<rparr>)
       \<and> (0 < d \<longrightarrow>
            check_access cfg now (b\<lparr>db := snd (save_user_access (db b) now (sender_id ev) name d)\<rparr>) ev)
       \<and> (\<forall>later. check_access cfg later
                      (b\<lparr>db := snd (save_user_access (db b) now (sender_id ev) name d)\<rparr>) ev
                    \<longleftrightarrow> later < now + d)"
  using assms
  by (auto simp: check_access_def check_user_access_def get_user_def get_connection_def
      save_user_access_def Let_def split: option.splits)

text \<open>
  The theorem at user 42, unknown to a fresh bot, granted one hour at the instant 1000:
  authorized at 1000 and at 4599, not at 4600.
\<close>

theorem access_iff_unexpired_record_witness:
  "sender_id (message_from 42 ''hello'') \<noteq> ADMIN_ID demo_config
   \<and> \<not> sqlite_raises (db new_bot)
   \<and> \<not> check_access demo_config 1000 new_bot (message_from 42 ''hello'')
   \<and> check_access demo_config 1000
        (new_bot\<lparr>db := snd (save_user_access (db new_bot) 1000 42 (Some ''bob'') 3600)\<rparr>)
        (message_from 42 ''hello'')
   \<and> check_access demo_config 4599
        (new_bot\<lparr>db := snd (save_user_access (db new_bot) 1000 42 (Some ''bob'') 3600)\<rparr>)
        (message_from 42 ''hello'')
   \<and> \<not> check_access demo_config 4600
        (new_bot\<lparr>db := snd (save_user_access (db new_bot) 1000 42 (Some ''bob'') 3600)\<rparr>)
        (message_from 42 ''hello'')"
proof -
  have h1: "sender_id (message_from 42 ''hello'') \<noteq> ADMIN_ID demo_config"
    by (simp add: message_from_def demo_config_def)
  have h2: "\<not> sqlite_raises (db new_bot)"
    by (simp add: new_bot_def empty_database_def)
  have s: "sender_id (message_from 42 ''hello'') = 42" by (simp add: message_from_def)
  have u: "users (db new_bot) 42 = None" by (simp add: new_bot_def empty_database_def)
  note t = access_iff_unexpired_record [OF h1 h2, of 1000 "Some ''bob''" 3600, unfolded s]
  from t have a: "\<not> check_access demo_config 1000 new_bot (message_from 42 ''hello'')"
    by (simp add: u)
  from t have e: "\<And>later. check_access demo_config later
        (new_bot\<lparr>db := snd (save_user_access (db new_bot) 1000 42 (Some ''bob'') 3600)\<rparr>)
        (message_from 42 ''hello'') \<longleftrightarrow> later < 1000 + 3600"
    by blast
  show ?thesis
    using h1 h2 a e [of 1000] e [of 4599] e [of 4600] by simp
qed

section \<open>Properties of the password handler\<close>

text \<open>
  Claim C8, as the code has it. For a user other than the administrator who has been asked
  for the password: a text that starts with \<open>/\<close> is dropped, with no change and no
  reply; any other text that is not the password changes nothing and is answered with the
  error message; the password itself, when it does not start with \<open>/\<close>, clears the
  conversation state, is answered with the confirmation and the main menu, and, when the
  database can be opened, stores access until \<open>now + 3600\<close>, after which the user is
  authorized.
\<close>

theorem password_handler_outcomes:
  assumes "sender_id ev \<noteq> ADMIN_ID cfg"
    and "auth_user_states b (sender_id ev) = Some STATE_WAITING_PASSWORD"
  shows "(startswith (event_text ev) ''/'' \<longrightarrow> message_handler cfg now ev b = b)
       \<and> (\<not> startswith (event_text ev) ''/'' \<and> event_text ev \<noteq> ACCESS_PASSWORD cfg \<longrightarrow>
            message_handler cfg now ev b = b\<lparr>sent := sent b @ [(sender_id ev, IncorrectPassword)]\<rparr>)
       \<and> (\<not> startswith (event_text ev) ''/'' \<and> event_text ev = ACCESS_PASSWORD cfg \<longrightarrow>
            message_handler cfg now ev b =
              b\<lparr>db := snd (save_user_access (db b) now (sender_id ev) (sender_username ev) ACCESS_TIMEOUT),
                auth_user_states := (auth_user_states b)(sender_id ev := None),
                sent := sent b @ [(sender_id ev, PasswordCorrect), (sender_id ev, MainMenu)]\<rparr>
            \<and> (\<not> sqlite_raises (db b) \<longrightarrow>
                 users (db (message_handler cfg now ev b)) (sender_id ev) =
                   Some \<lparr>u_username = sender_username ev, u_access_until = now + 3600\<rparr>
                 \<and> check_access cfg now (message_handler cfg now ev b) ev))"
  using assms
  by (auto simp: message_handler_def Let_def respond_def show_main_menu_def
      save_user_access_def get_connection_def ACCESS_TIMEOUT_def check_access_def
      check_user_access_def get_user_def)

text \<open>
  The theorem at user 42 with the password \<open>secret\<close>: \<open>/help\<close> is dropped, \<open>guess\<close> gets
  the error message, \<open>secret\<close> grants access until 4600.
\<close>

theorem password_handler_outcomes_witness:
  "sender_id (message_from 42 ''secret'') \<noteq> ADMIN_ID demo_config
   \<and> auth_user_states prompted_bot (sender_id (message_from 42 ''secret''))
       = Some STATE_WAITING_PASSWORD
   \<and> message_handler demo_config 1000 (message_from 42 ''/help'') prompted_bot = prompted_bot
   \<and> message_handler demo_config 1000 (message_from 42 ''guess'') prompted_bot
       = prompted_bot\<lparr>sent := [(42, IncorrectPassword)]\<rparr>
   \<and> users (db (message_handler demo_config 1000 (message_from 42 ''secret'') prompted_bot)) 42
       = Some \<lparr>u_username = Some ''bob'', u_access_until = 4600\<rparr>
   \<and> auth_user_states (message_handler demo_config 1000 (message_from 42 ''secret'') prompted_bot) 42
       = None
   \<and> sent (message_handler demo_config 1000 (message_from 42 ''secret'') prompted_bot)
       = [(42, PasswordCorrect), (42, MainMenu)]"
proof -
  have h1: "sender_id (message_from 42 t) \<noteq> ADMIN_ID demo_config" for t
    by (simp add: message_from_def demo_config_def)
  have h2: "auth_user_states prompted_bot (sender_id (message_from 42 t))
              = Some STATE_WAITING_PASSWORD" for t
    by (simp add: prompted_bot_def new_bot_def message_from_def)
  note t = password_handler_outcomes [OF h1 h2, of _ 1000]
  have a: "message_handler demo_config 1000 (message_from 42 ''/help'') prompted_bot = prompted_bot"
    using t [of "''/help''"] by (simp add: message_from_def startswith_def)
  have b: "message_handler demo_config 1000 (message_from 42 ''guess'') prompted_bot
       = prompted_bot\<lparr>sent := [(42, IncorrectPassword)]\<rparr>"
    using t [of "''guess''"]
    by (simp add: message_from_def startswith_def demo_config_def prompted_bot_def new_bot_def)
  have c: "message_handler demo_config 1000 (message_from 42 ''secret'') prompted_bot =
      prompted_bot\<lparr>db := snd (save_user_access (db prompted_bot) 1000 42 (Some ''bob'') ACCESS_TIMEOUT),
                auth_user_states := (auth_user_states prompted_bot)(42 := None),
                sent := sent prompted_bot @ [(42, PasswordCorrect), (42, MainMenu)]\<rparr>"
    using t [of "''secret''"]
    by (simp add: message_from_def startswith_def demo_config_def)
  have d: "users (db (message_handler demo_config 1000 (message_from 42 ''secret'') prompted_bot)) 42
       = Some \<lparr>u_username = Some ''bob'', u_access_until = 4600\<rparr>"
    by (subst c) (simp add: save_user_access_def get_connection_def prompted_bot_def new_bot_def
        empty_database_def ACCESS_TIMEOUT_def)
  have e: "auth_user_states (message_handler demo_config 1000 (message_from 42 ''secret'') prompted_bot) 42
       = None"
    by (subst c) simp
  have f: "sent (message_handler demo_config 1000 (message_from 42 ''secret'') prompted_bot)
       = [(42, PasswordCorrect), (42, MainMenu)]"
    by (subst c) (simp add: prompted_bot_def new_bot_def)
  show ?thesis
    using h1 [of "''secret''"] h2 [of "''secret''"] a b d e f by simp
qed

text \<open>
  Claim C8 as stated fails for a command: user 42 has been asked for the password and sends
  \<open>/help\<close>, which is not the password, and the handler sends no error message.
\<close>

theorem ignored_command_gets_no_error_message:
  "sender_id (message_from 42 ''/help'') \<noteq> ADMIN_ID demo_config
   \<and> auth_user_states prompted_bot 42 = Some STATE_WAITING_PASSWORD
   \<and> event_text (message_from 42 ''/help'') \<noteq> ACCESS_PASSWORD demo_config
   \<and> sent (message_handler demo_config 1000 (message_from 42 ''/help'') prompted_bot) = []"
  by (simp add: message_handler_def message_from_def demo_config_def prompted_bot_def
      new_bot_def startswith_def)

text \<open>
  Claim C10. When the configured password begins with \<open>/\<close>, the password handler never
  changes the database or the conversation state of a user other than the administrator,
  whatever the message; the password itself is dropped as a command, with no reply.
\<close>

theorem password_starting_with_slash_never_grants:
  assumes "startswith (ACCESS_PASSWORD cfg) ''/''" and "sender_id ev \<noteq> ADMIN_ID cfg"
  shows "db (message_handler cfg now ev b) = db b
       \<and> auth_user_states (message_handler cfg now ev b) = auth_user_states b
       \<and> (event_text ev = ACCESS_PASSWORD cfg \<longrightarrow> message_handler cfg now ev b = b)"
  using assms
  by (auto simp: message_handler_def Let_def respond_def)

text \<open>
  The theorem with the password \<open>/secret\<close>: user 42, asked for the password, sends exactly
  it and the bot stays as it was; a wrong guess leaves the database as it was.
\<close>

theorem password_starting_with_slash_never_grants_witness:
  "startswith (ACCESS_PASSWORD slash_config) ''/''
   \<and> sender_id (message_from 42 ''/secret'') \<noteq> ADMIN_ID slash_config
   \<and> auth_user_states prompted_bot 42 = Some STATE_WAITING_PASSWORD
   \<and> event_text (message_from 42 ''/secret'') = ACCESS_PASSWORD slash_config
   \<and> message_handler slash_config 1000 (message_from 42 ''/secret'') prompted_bot = prompted_bot
   \<and> db (message_handler slash_config 1000 (message_from 42 ''guess'') prompted_bot)
       = db prompted_bot"
proof -
  have h1: "startswith (ACCESS_PASSWORD slash_config) ''/''"
    by (simp add: slash_config_def startswith_def)
  have h2: "sender_id (message_from 42 t) \<noteq> ADMIN_ID slash_config" for t
    by (simp add: message_from_def slash_config_def)
  have h3: "event_text (message_from 42 ''/secret'') = ACCESS_PASSWORD slash_config"
    by (simp add: message_from_def slash_config_def)
  have h4: "auth_user_states prompted_bot 42 = Some STATE_WAITING_PASSWORD"
    by (simp add: prompted_bot_def new_bot_def)
  show ?thesis
    using h1 h2 [of "''/secret''"] h3 h4
      password_starting_with_slash_never_grants
        [where cfg = slash_config and ev = "message_from 42 ''/secret''" and now = 1000
           and b = prompted_bot, OF h1 h2]
      password_starting_with_slash_never_grants
        [where cfg = slash_config and ev = "message_from 42 ''guess''" and now = 1000
           and b = prompted_bot, OF h1 h2]
    by simp
qed

section \<open>Properties of thumbnail generation and ingestion\<close>

text \<open>
  For a frame of positive height and width both sides are scaled by \<open>320 / max\<close> and
  rounded down, and the longer side comes out as 320.
\<close>

lemma new_size_positive:
  assumes "0 < height" and "0 < width"
  shows "new_size height width =
           Inr ((320 * height) div (max height width), (320 * width) div (max height width))"
  using assms by (auto simp: new_size_def int_truediv_def Let_def max_def)

lemma new_size_longer_side:
  fixes height width :: nat
  assumes "0 < height" and "0 < width"
  shows "max ((320 * height) div (max height width)) ((320 * width) div (max height width)) = 320"
proof (cases "height > width")
  case True
  then have m: "max height width = height" by (simp add: max_def)
  have "(320 * width) div height \<le> (320 * height) div height"
    using True by (intro div_le_mono) simp
  then show ?thesis using assms m by simp
next
  case False
  then have m: "max height width = width" by (simp add: max_def)
  have "(320 * height) div width \<le> (320 * width) div width"
    using False by (intro div_le_mono) simp
  then show ?thesis using assms m by simp
qed

lemma generate_zero_frames:
  "vc_frame_count (cv_VideoCapture cv video_path) = 0 \<Longrightarrow>
     generate cv fs video_path tp = (None, fs, [])"
  by (simp add: generate_def Let_def)

lemma generate_failure_keeps_files:
  "fst (generate cv fs video_path tp) = None \<Longrightarrow> generate cv fs video_path tp = (None, fs, snd (snd (generate cv fs video_path tp)))"
  by (auto simp: generate_def Let_def split: option.splits sum.splits prod.splits if_splits)

text \<open>
  Claim C7. A video whose frame count is zero gives no thumbnail, and nothing is read or
  written. For an existing video that opens with \<open>total_frames > 0\<close> and whose frame at
  position \<open>total_frames div 2\<close> decodes to an image of positive height and width: that
  position is the one sought and read; the size asked of \<open>cv2.resize\<close> has both sides
  scaled by the same factor, the longer one being exactly 320; and, \<open>cv2.resize\<close> and
  \<open>cv2.imwrite\<close> succeeding, the resized frame is written to the thumbnail directory
  under the video's file name followed by \<open>.jpg\<close>, and that path is returned.
\<close>

theorem generate_thumbnail_middle_frame:
  assumes "total_frames = vc_frame_count (cv_VideoCapture cv video_path)"
    and "tp = os_path_join (THUMBNAIL_DIR cfg) (os_path_basename video_path @ ''.jpg'')"
  shows "(total_frames = 0 \<longrightarrow> generate_thumbnail cfg cv fs video_path = (None, fs, []))
       \<and> (\<forall>img new_width new_height resized.
             os_path_exists fs video_path \<and> vc_opened (cv_VideoCapture cv video_path)
             \<and> 0 < total_frames
             \<and> vc_read (cv_VideoCapture cv video_path) (total_frames div 2) = Some img
             \<and> 0 < img_height img \<and> 0 < img_width img
             \<and> new_width = (320 * img_width img) div (max (img_height img) (img_width img))
             \<and> new_height = (320 * img_height img) div (max (img_height img) (img_width img))
             \<and> cv_resize cv img (new_width, new_height) = Inr resized
             \<and> cv_imwrite cv tp resized = Inr True
             \<longrightarrow> max new_width new_height = 320
                 \<and> generate_thumbnail cfg cv fs video_path =
                     (Some tp, fs\<lparr>fs_paths := insert tp (fs_paths fs)\<rparr>,
                      [SetPosFrames (total_frames div 2), Read,
                       Resize img new_width new_height, Imwrite tp resized]))"
proof (intro conjI allI impI)
  assume "total_frames = 0"
  then show "generate_thumbnail cfg cv fs video_path = (None, fs, [])"
    using assms by (simp add: generate_thumbnail_def generate_def Let_def)
next
  fix img new_width new_height resized
  assume h: "os_path_exists fs video_path \<and> vc_opened (cv_VideoCapture cv video_path)
             \<and> 0 < total_frames
             \<and> vc_read (cv_VideoCapture cv video_path) (total_frames div 2) = Some img
             \<and> 0 < img_height img \<and> 0 < img_width img
             \<and> new_width = (320 * img_width img) div (max (img_height img) (img_width img))
             \<and> new_height = (320 * img_height img) div (max (img_height img) (img_width img))
             \<and> cv_resize cv img (new_width, new_height) = Inr resized
             \<and> cv_imwrite cv tp resized = Inr True"
  then have h1: "0 < img_height img" and h2: "0 < img_width img"
    and h3: "new_width = (320 * img_width img) div (max (img_height img) (img_width img))"
    and h4: "new_height = (320 * img_height img) div (max (img_height img) (img_width img))"
    and ex: "os_path_exists fs video_path" and op: "vc_opened (cv_VideoCapture cv video_path)"
    by blast+
  show "max new_width new_height = 320"
    using new_size_longer_side [OF h1 h2] h3 h4 by (simp add: max.commute)
  have ns: "new_size (img_height img) (img_width img) = Inr (new_height, new_width)"
    using h3 h4 new_size_positive [OF h1 h2] by simp
  have rd: "vc_read (cv_VideoCapture cv video_path)
              (vc_frame_count (cv_VideoCapture cv video_path) div 2) = Some img"
    using h assms(1) by simp
  have nz: "vc_frame_count (cv_VideoCapture cv video_path) \<noteq> 0"
    using h assms(1) by simp
  have rs: "cv_resize cv img (new_width, new_height) = Inr resized" using h by blast
  have wr: "cv_imwrite cv (thumbnail_path_of cfg video_path) resized = Inr True"
    using h assms(2) by (simp add: thumbnail_path_of_def)
  have "generate cv fs video_path (thumbnail_path_of cfg video_path) =
          (Some (thumbnail_path_of cfg video_path),
           fs\<lparr>fs_paths := insert (thumbnail_path_of cfg video_path) (fs_paths fs)\<rparr>,
           [SetPosFrames (vc_frame_count (cv_VideoCapture cv video_path) div 2), Read,
            Resize img new_width new_height,
            Imwrite (thumbnail_path_of cfg video_path) resized])"
    unfolding generate_def Let_def using op nz rd ns rs wr by simp
  then show "generate_thumbnail cfg cv fs video_path =
                     (Some tp, fs\<lparr>fs_paths := insert tp (fs_paths fs)\<rparr>,
                      [SetPosFrames (total_frames div 2), Read,
                       Resize img new_width new_height, Imwrite tp resized])"
    using ex assms by (simp add: generate_thumbnail_def thumbnail_path_of_def)
qed

text \<open>
  The theorem at a ten-frame video of 1920 by 1080: frame 5 is read and written as 320 by
  180 to \<open>/srv/bot/DATA/thumbnails/a.mp4.jpg\<close>; with no frames, nothing is produced.
\<close>

theorem generate_thumbnail_middle_frame_witness:
  "os_path_exists \<lparr>fs_paths = {''/data/videos/a.mp4''}, fs_denied = {}\<rparr> ''/data/videos/a.mp4''
   \<and> vc_opened (cv_VideoCapture demo_cv ''/data/videos/a.mp4'')
   \<and> vc_frame_count (cv_VideoCapture demo_cv ''/data/videos/a.mp4'') = 10
   \<and> vc_read (cv_VideoCapture demo_cv ''/data/videos/a.mp4'') 5
       = Some \<lparr>img_height = 1080, img_width = 1920, img_frame = 5\<rparr>
   \<and> generate_thumbnail demo_config no_frames_cv
        \<lparr>fs_paths = {''/data/videos/a.mp4''}, fs_denied = {}\<rparr> ''/data/videos/a.mp4''
       = (None, \<lparr>fs_paths = {''/data/videos/a.mp4''}, fs_denied = {}\<rparr>, [])
   \<and> generate_thumbnail demo_config demo_cv
        \<lparr>fs_paths = {''/data/videos/a.mp4''}, fs_denied = {}\<rparr> ''/data/videos/a.mp4''
       = (Some ''/srv/bot/DATA/thumbnails/a.mp4.jpg'',
          \<lparr>fs_paths = {''/srv/bot/DATA/thumbnails/a.mp4.jpg'', ''/data/videos/a.mp4''},
           fs_denied = {}\<rparr>,
          [SetPosFrames 5, Read,
           Resize \<lparr>img_height = 1080, img_width = 1920, img_frame = 5\<rparr> 320 180,
           Imwrite ''/srv/bot/DATA/thumbnails/a.mp4.jpg''
             \<lparr>img_height = 180, img_width = 320, img_frame = 5\<rparr>])"
proof -
  let ?fs = "\<lparr>fs_paths = {''/data/videos/a.mp4''}, fs_denied = {}\<rparr>"
  let ?p = "''/data/videos/a.mp4''"
  let ?tp = "''/srv/bot/DATA/thumbnails/a.mp4.jpg''"
  let ?img = "\<lparr>img_height = 1080, img_width = 1920, img_frame = 5\<rparr>"
  have h1: "os_path_exists ?fs ?p" by (simp add: os_path_exists_def)
  have h2: "vc_opened (cv_VideoCapture demo_cv ?p)" by (simp add: demo_cv_def)
  have h3: "10 = vc_frame_count (cv_VideoCapture demo_cv ?p)" by (simp add: demo_cv_def)
  have h3': "0 = vc_frame_count (cv_VideoCapture no_frames_cv ?p)" by (simp add: no_frames_cv_def)
  have h4: "?tp = os_path_join (THUMBNAIL_DIR demo_config) (os_path_basename ?p @ ''.jpg'')"
    by (simp add: THUMBNAIL_DIR_def DATA_DIR_def demo_config_def os_path_join_def
        os_path_basename_def startswith_def)
  have rd: "vc_read (cv_VideoCapture demo_cv ?p) 5 = Some ?img" by (simp add: demo_cv_def)
  have rs: "cv_resize demo_cv ?img (320, 180)
              = Inr \<lparr>img_height = 180, img_width = 320, img_frame = 5\<rparr>"
    by (simp add: demo_cv_def)
  have wr: "cv_imwrite demo_cv ?tp \<lparr>img_height = 180, img_width = 320, img_frame = 5\<rparr> = Inr True"
    by (simp add: demo_cv_def)
  have zero: "generate_thumbnail demo_config no_frames_cv ?fs ?p = (None, ?fs, [])"
    using generate_thumbnail_middle_frame [OF h3' h4] by simp
  have "\<forall>img new_width new_height resized.
             os_path_exists ?fs ?p \<and> vc_opened (cv_VideoCapture demo_cv ?p)
             \<and> 0 < (10::int)
             \<and> vc_read (cv_VideoCapture demo_cv ?p) (10 div 2) = Some img
             \<and> 0 < img_height img \<and> 0 < img_width img
             \<and> new_width = (320 * img_width img) div (max (img_height img) (img_width img))
             \<and> new_height = (320 * img_height img) div (max (img_height img) (img_width img))
             \<and> cv_resize demo_cv img (new_width, new_height) = Inr resized
             \<and> cv_imwrite demo_cv ?tp resized = Inr True
             \<longrightarrow> max new_width new_height = 320
                 \<and> generate_thumbnail demo_config demo_cv ?fs ?p =
                     (Some ?tp, ?fs\<lparr>fs_paths := insert ?tp (fs_paths ?fs)\<rparr>,
                      [SetPosFrames (10 div 2), Read,
                       Resize img new_width new_height, Imwrite ?tp resized])"
    using generate_thumbnail_middle_frame [OF h3 h4] by (rule conjunct2)
  then have "os_path_exists ?fs ?p \<and> vc_opened (cv_VideoCapture demo_cv ?p)
             \<and> 0 < (10::int)
             \<and> vc_read (cv_VideoCapture demo_cv ?p) (10 div 2) = Some ?img
             \<and> 0 < img_height ?img \<and> 0 < img_width ?img
             \<and> 320 = (320 * img_width ?img) div (max (img_height ?img) (img_width ?img))
             \<and> 180 = (320 * img_height ?img) div (max (img_height ?img) (img_width ?img))
             \<and> cv_resize demo_cv ?img (320, 180) = Inr \<lparr>img_height = 180, img_width = 320, img_frame = 5\<rparr>
             \<and> cv_imwrite demo_cv ?tp \<lparr>img_height = 180, img_width = 320, img_frame = 5\<rparr> = Inr True
             \<longrightarrow> max 320 180 = (320::nat)
                 \<and> generate_thumbnail demo_config demo_cv ?fs ?p =
                     (Some ?tp, ?fs\<lparr>fs_paths := insert ?tp (fs_paths ?fs)\<rparr>,
                      [SetPosFrames (10 div 2), Read,
                       Resize ?img 320 180,
                       Imwrite ?tp \<lparr>img_height = 180, img_width = 320, img_frame = 5\<rparr>])"
    by blast
  then have ok: "generate_thumbnail demo_config demo_cv ?fs ?p =
                     (Some ?tp, ?fs\<lparr>fs_paths := insert ?tp (fs_paths ?fs)\<rparr>,
                      [SetPosFrames 5, Read, Resize ?img 320 180,
                       Imwrite ?tp \<lparr>img_height = 180, img_width = 320, img_frame = 5\<rparr>])"
    using h1 h2 rd rs wr by simp
  show ?thesis
    using h1 h2 h3 rd zero ok by simp
qed

text \<open>
  Claim C5. When the message carries a video document and the download leaves a file at the
  returned path, \<open>save_video_file\<close> returns that path whatever the thumbnail step does: the
  second component is the result of \<open>generate_thumbnail\<close>, and when that result is
  \<open>None\<close>, as for a video of zero frames, the pair is the stored path with no thumbnail.
\<close>

theorem thumbnail_failure_is_not_fatal:
  assumes "message_media = Some (MessageMediaDocument (Some mime_type))"
    and "startswith mime_type ''video/''"
    and "download_media client fs (os_path_join (VIDEO_DIR cfg) (uuid_hex client @ ''.mp4''))
           = Inr (Some downloaded_path, fs1)"
    and "downloaded_path \<noteq> []"
    and "os_path_exists fs1 downloaded_path"
  shows "fst (fst (save_video_file cfg client cv fs message_media)) = Some downloaded_path
       \<and> snd (fst (save_video_file cfg client cv fs message_media))
           = fst (generate_thumbnail cfg cv fs1 downloaded_path)
       \<and> (fst (generate_thumbnail cfg cv fs1 downloaded_path) = None \<longrightarrow>
             save_video_file cfg client cv fs message_media = ((Some downloaded_path, None), fs1))
       \<and> (vc_frame_count (cv_VideoCapture cv downloaded_path) = 0 \<longrightarrow>
             save_video_file cfg client cv fs message_media = ((Some downloaded_path, None), fs1))"
proof -
  have sv: "save_video_file cfg client cv fs message_media =
          (case generate_thumbnail cfg cv fs1 downloaded_path of
             (thumbnail_path, fs2, calls) \<Rightarrow> ((Some downloaded_path, thumbnail_path), fs2))"
    using assms by (simp add: save_video_file_def Let_def)
  have fail: "fst (generate_thumbnail cfg cv fs1 downloaded_path) = None \<Longrightarrow>
          fst (snd (generate_thumbnail cfg cv fs1 downloaded_path)) = fs1"
    using generate_failure_keeps_files [of cv fs1 downloaded_path "thumbnail_path_of cfg downloaded_path"]
    by (auto simp: generate_thumbnail_def split: if_splits) (metis fst_conv snd_conv)
  have zero: "vc_frame_count (cv_VideoCapture cv downloaded_path) = 0 \<Longrightarrow>
          fst (generate_thumbnail cfg cv fs1 downloaded_path) = None"
    by (simp add: generate_thumbnail_def generate_zero_frames)
  show ?thesis
    using sv fail zero by (auto split: prod.splits)
qed

text \<open>
  The theorem at a \<open>video/mp4\<close> document whose file decodes to zero frames: the stored path
  is returned and the thumbnail is absent.
\<close>

theorem thumbnail_failure_is_not_fatal_witness:
  "startswith ''video/mp4'' ''video/''
   \<and> download_media demo_client empty_filesystem ''/srv/bot/DATA/videos/0123abcd.mp4''
       = Inr (Some ''/srv/bot/DATA/videos/0123abcd.mp4'',
              \<lparr>fs_paths = {''/srv/bot/DATA/videos/0123abcd.mp4''}, fs_denied = {}\<rparr>)
   \<and> vc_frame_count (cv_VideoCapture no_frames_cv ''/srv/bot/DATA/videos/0123abcd.mp4'') = 0
   \<and> save_video_file demo_config demo_client no_frames_cv empty_filesystem
        (Some (MessageMediaDocument (Some ''video/mp4'')))
       = ((Some ''/srv/bot/DATA/videos/0123abcd.mp4'', None),
          \<lparr>fs_paths = {''/srv/bot/DATA/videos/0123abcd.mp4''}, fs_denied = {}\<rparr>)"
proof -
  let ?p = "''/srv/bot/DATA/videos/0123abcd.mp4''"
  let ?fs1 = "\<lparr>fs_paths = {?p}, fs_denied = {}\<rparr>"
  have h2: "startswith ''video/mp4'' ''video/''" by (simp add: startswith_def)
  have vp: "os_path_join (VIDEO_DIR demo_config) (uuid_hex demo_client @ ''.mp4'') = ?p"
    by (simp add: VIDEO_DIR_def DATA_DIR_def demo_config_def demo_client_def os_path_join_def
        startswith_def)
  have h3: "download_media demo_client empty_filesystem
              (os_path_join (VIDEO_DIR demo_config) (uuid_hex demo_client @ ''.mp4''))
            = Inr (Some ?p, ?fs1)"
    unfolding vp by (simp add: demo_client_def empty_filesystem_def)
  have h4: "?p \<noteq> []" by simp
  have h5: "os_path_exists ?fs1 ?p" by (simp add: os_path_exists_def)
  have z: "vc_frame_count (cv_VideoCapture no_frames_cv ?p) = 0" by (simp add: no_frames_cv_def)
  show ?thesis
    using h2 h3 [unfolded vp] z
      thumbnail_failure_is_not_fatal [OF refl h2 h3 h4 h5, of no_frames_cv]
    by simp
qed

section \<open>Properties of category deletion\<close>

text \<open>
  A link produces no filesystem call; a stored file is looked for first.
\<close>

lemma delete_video_files_link:
  "v_type video \<noteq> ''file'' \<Longrightarrow> delete_video_files f video = (True, f, [])"
  by (simp add: delete_video_files_def)

lemma delete_video_files_file:
  "v_type video = ''file'' \<Longrightarrow>
     \<exists>rest. snd (snd (delete_video_files f video)) = Exists (v_path_or_url video) # rest"
  by (auto simp: delete_video_files_def Let_def split: sum.splits option.splits)

text \<open>
  What \<open>delete_category\<close> leaves depends on the foreign-key setting of the connection it
  opens. With enforcement off, only the category row goes; with enforcement on, the rows of
  the videos in the category go with it. The pragma that \<open>init_db\<close> sets stays on the
  connection of \<open>init_db\<close>.
\<close>

lemma delete_category_foreign_keys_off:
  assumes "\<not> sqlite_raises d" and "\<not> default_foreign_keys d"
  shows "delete_category d category_id =
           (filter (\<lambda>v. v_category_id v = category_id) (videos d),
            d\<lparr>categories := filter (\<lambda>c. c_id c \<noteq> category_id) (categories d)\<rparr>)"
  using assms
  by (simp add: delete_category_def get_connection_def sql_delete_category_def Let_def)

lemma delete_category_foreign_keys_on:
  assumes "\<not> sqlite_raises d" and "default_foreign_keys d"
    and "list_ex (\<lambda>c. c_id c = category_id) (categories d)"
  shows "delete_category d category_id =
           (filter (\<lambda>v. v_category_id v = category_id) (videos d),
            d\<lparr>categories := filter (\<lambda>c. c_id c \<noteq> category_id) (categories d),
              videos := filter (\<lambda>v. v_category_id v \<noteq> category_id) (videos d)\<rparr>)"
  using assms
  by (simp add: delete_category_def get_connection_def sql_delete_category_def Let_def)

lemma init_db_pragma_is_local:
  "\<not> sqlite_raises d \<Longrightarrow>
     init_db d = Inr (d, \<lparr>foreign_keys = True\<rparr>)
     \<and> get_connection (fst (projr (init_db d))) = Inr \<lparr>foreign_keys = default_foreign_keys d\<rparr>"
  by (simp add: init_db_def get_connection_def)

text \<open>
  Claim C1. Confirming the deletion of a category should remove the category row and the
  rows of its videos, and try to delete the files of the stored videos only. On the archive
  with the category \<open>Demo\<close> holding a stored file and a link, the administrator confirms
  the deletion: the connection opened by \<open>delete_category\<close> has foreign keys off, the
  category row is removed and the files of the stored video are removed, with no call for
  the link, but both video rows are still in the table.
\<close>

theorem confirm_delete_leaves_video_rows:
  "init_db (db archive_bot) = Inr (db archive_bot, \<lparr>foreign_keys = True\<rparr>)
   \<and> get_connection (db archive_bot) = Inr \<lparr>foreign_keys = False\<rparr>
   \<and> check_access demo_config 1000 archive_bot (message_from 1 [])
   \<and> filter (\<lambda>v. v_category_id v = 1) (videos (db archive_bot)) = [clip_video, talk_video]
   \<and> categories (db (on_confirm_delete demo_config 1000 1 (message_from 1 []) archive_bot)) = []
   \<and> videos (db (on_confirm_delete demo_config 1000 1 (message_from 1 []) archive_bot))
       = [clip_video, talk_video]
   \<and> fs_calls (on_confirm_delete demo_config 1000 1 (message_from 1 []) archive_bot)
       = [Exists ''/data/videos/a.mp4'', Remove ''/data/videos/a.mp4'',
          Exists ''/data/thumbnails/a.mp4.jpg'', Remove ''/data/thumbnails/a.mp4.jpg'']
   \<and> fs_paths (disk (on_confirm_delete demo_config 1000 1 (message_from 1 []) archive_bot)) = {}
   \<and> sent (on_confirm_delete demo_config 1000 1 (message_from 1 []) archive_bot)
       = [(1, CategoryDeleted)]"
  by (simp add: on_confirm_delete_def check_access_def message_from_def demo_config_def
      archive_bot_def new_bot_def empty_database_def delete_category_def get_connection_def
      init_db_def sql_delete_category_def clip_video_def talk_video_def delete_video_files_def
      os_path_exists_def os_remove_def respond_def Let_def)

section \<open>Properties of the access check in the handlers\<close>

text \<open>
  Every button handler starts with \<open>check_access\<close>: without access it only answers that
  the access has expired.
\<close>

lemma callbacks_check_access:
  assumes "\<not> check_access cfg now b ev"
  shows "on_manage_categories cfg now ev b = respond ev AccessExpired b"
    and "on_category_add cfg now ev b = respond ev AccessExpired b"
    and "on_category_delete cfg now ev b = respond ev AccessExpired b"
    and "on_delete_category_selected cfg now n ev b = respond ev AccessExpired b"
    and "on_confirm_delete cfg now n ev b = respond ev AccessExpired b"
    and "on_back_to_categories cfg now ev b = respond ev AccessExpired b"
    and "on_back_to_main cfg now ev b = respond ev AccessExpired b"
    and "on_video_add cfg now ev b = respond ev AccessExpired b"
    and "on_delete_video_selected cfg now n ev b = respond ev AccessExpired b"
    and "on_confirm_delete_video cfg now n ev b = respond ev AccessExpired b"
    and "on_back_to_videos cfg now ev b = respond ev AccessExpired b"
    and "on_category_selected cfg now n ev b = respond ev AccessExpired b"
  using assms
  by (simp_all add: on_manage_categories_def on_category_add_def on_category_delete_def
      on_delete_category_selected_def on_confirm_delete_def on_back_to_categories_def
      on_back_to_main_def on_video_add_def on_delete_video_selected_def
      on_confirm_delete_video_def on_back_to_videos_def on_category_selected_def)

text \<open>
  Claim C3. A user whose access has expired should not be able to change the store. User 42,
  with access until 2000, presses the button to add a category at the instant 1000 and is
  asked for its name. At the instant 5000 the access has expired; the user sends the text
  \<open>Demo\<close>. The message handler of the category module does not check the access: the
  category is created and confirmed, and no notice of expiry is sent.
\<close>

theorem expired_user_adds_category:
  "check_access demo_config 1000 member_bot (message_from 42 [])
   \<and> \<not> check_access demo_config 5000
         (on_category_add demo_config 1000 (message_from 42 []) member_bot)
         (message_from 42 ''Demo'')
   \<and> categories (db (on_category_add demo_config 1000 (message_from 42 []) member_bot)) = []
   \<and> categories (db (on_new_message demo_config demo_client demo_cv 5000
                        (message_from 42 ''Demo'')
                        (on_category_add demo_config 1000 (message_from 42 []) member_bot)))
       = [\<lparr>c_id = 1, c_name = ''Demo''\<rparr>]
   \<and> sent (on_new_message demo_config demo_client demo_cv 5000
              (message_from 42 ''Demo'')
              (on_category_add demo_config 1000 (message_from 42 []) member_bot))
       = [(42, AddCategoryPrompt), (42, CategoryAdded ''Demo'')]"
  by (simp add: on_new_message_def on_category_add_def check_access_def check_user_access_def
      get_user_def get_connection_def message_from_def demo_config_def member_bot_def
      new_bot_def empty_database_def startswith_def message_handler_def category_on_message_def
      video_on_message_def add_category_def strip_def isspace_def respond_def
      STATE_WAITING_CATEGORY_NAME_def Let_def)

end
